theory Spec2Isabelle
  imports Main
begin

section \<open>Data model\<close>

text \<open>
  The objects of \<^verbatim>\<open>pkg/serviceaccounts/controllers/deleted_dockercfg_secrets.go\<close>.
  A ServiceAccount holds two ordered reference lists; the entries of \<^verbatim>\<open>Secrets\<close> are
  \<^verbatim>\<open>api.ObjectReference\<close> values, those of \<^verbatim>\<open>ImagePullSecrets\<close> are
  \<^verbatim>\<open>api.LocalObjectReference\<close> values. Only the \<^verbatim>\<open>Name\<close> field of an entry is read by
  the controller, the other fields travel along unchanged.
\<close>

record ObjectReference =
  or_Kind :: string
  or_Namespace :: string
  or_Name :: string
  or_UID :: string
  or_APIVersion :: string
  or_ResourceVersion :: string
  or_FieldPath :: string

record LocalObjectReference =
  lor_Name :: string

text \<open>
  The resource version is the optimistic-concurrency token of the object; it is opaque to
  the controller and is kept as a counter here.
\<close>

record ServiceAccount =
  sa_Namespace :: string
  sa_Name :: string
  sa_UID :: string
  sa_ResourceVersion :: nat
  Secrets :: "ObjectReference list"
  ImagePullSecrets :: "LocalObjectReference list"

text \<open>A Go \<^verbatim>\<open>map[string]string\<close>; a nil map reads like the empty one.\<close>

record Secret =
  secret_Namespace :: string
  secret_Name :: string
  Annotations :: "string \<rightharpoonup> string"

text \<open>
  The payload of a delete notification is an \<^verbatim>\<open>interface{}\<close>: the informer hands over
  either the deleted \<^verbatim>\<open>*api.Secret\<close> or a value of another type (a cache tombstone,
  identified here by its key).
\<close>

datatype Object = SecretObj Secret | OtherObj string

text \<open>
  Errors. A store error carries a status reason, which is what \<^verbatim>\<open>kapierrors.IsNotFound\<close>
  and \<^verbatim>\<open>kapierrors.IsConflict\<close> inspect; \<^verbatim>\<open>fmt.Errorf\<close> builds a plain error with a
  message, for which both predicates are false. A nil error is \<open>None\<close>.
\<close>

datatype StatusReason = StatusReasonNotFound | StatusReasonConflict | StatusReasonOther string

datatype error = StatusError StatusReason | FmtError string

fun IsNotFound :: "error option \<Rightarrow> bool" where
  "IsNotFound (Some (StatusError StatusReasonNotFound)) = True"
| "IsNotFound _ = False"

fun IsConflict :: "error option \<Rightarrow> bool" where
  "IsConflict (Some (StatusError StatusReasonConflict)) = True"
| "IsConflict _ = False"

text \<open>
  A function either returns or panics; the only panic of this file is the nil pointer
  dereference of Go's runtime.
\<close>

datatype 'a go = Return 'a | Panic

section \<open>The store client and the observable effects\<close>

text \<open>
  The client (\<^verbatim>\<open>kclientset.Interface\<close>) is an external collaborator and a parameter of
  the model: three operations over a client state \<open>'c\<close> of any type, each returning its
  result and the next client state. Other writers acting between two calls are part of
  that state. \<^verbatim>\<open>Update\<close> also returns the stored object, which the controller discards.
\<close>

record 'c Client =
  ServiceAccounts_Get :: "'c \<Rightarrow> string \<Rightarrow> string \<Rightarrow> (error + ServiceAccount) \<times> 'c"
  ServiceAccounts_Update :: "'c \<Rightarrow> string \<Rightarrow> ServiceAccount \<Rightarrow> error option \<times> 'c"
  Secrets_Delete :: "'c \<Rightarrow> string \<Rightarrow> string \<Rightarrow> error option \<times> 'c"

text \<open>
  Every effect of the controller is recorded as an event, in program order: the three store
  calls with their arguments and results, the sleep between two attempts, and the two
  reporting calls \<^verbatim>\<open>glog.Error\<close> and \<^verbatim>\<open>utilruntime.HandleError\<close>. The sleep is
  \<^verbatim>\<open>time.Sleep(wait.Jitter(d, 0.0))\<close>: the event keeps the base duration \<open>d\<close> in
  nanoseconds; \<^verbatim>\<open>wait.Jitter\<close> belongs to a library outside the files at hand and what it
  returns is not modelled.
\<close>

datatype event =
    GetServiceAccount string string "error + ServiceAccount"
  | UpdateServiceAccount string ServiceAccount "error option"
  | SleepJitter int
  | GlogError error
  | DeleteSecret string string "error option"
  | HandleError error

section \<open>Constants\<close>

definition NumServiceAccountUpdateRetries :: nat where
  "NumServiceAccountUpdateRetries = 10"

definition Millisecond :: int where
  "Millisecond = 1000000"

text \<open>
  Modelled from the spec: the three annotation keys are constants declared outside the
  files at hand (\<^verbatim>\<open>ServiceAccountTokenSecretNameKey\<close> in another file of the package,
  \<^verbatim>\<open>api.ServiceAccountNameKey\<close> and \<^verbatim>\<open>api.ServiceAccountUIDKey\<close> in the api package).
  The spec calls them \<^verbatim>\<open>derivedResourceName\<close>, \<^verbatim>\<open>backrefName\<close> and \<^verbatim>\<open>backrefUID\<close>.
  No proof below depends on their values.
\<close>

definition ServiceAccountTokenSecretNameKey :: string where
  "ServiceAccountTokenSecretNameKey = ''derivedResourceName''"

definition ServiceAccountNameKey :: string where
  "ServiceAccountNameKey = ''backrefName''"

definition ServiceAccountUIDKey :: string where
  "ServiceAccountUIDKey = ''backrefUID''"

section \<open>The controller\<close>

text \<open>Reading a Go map: a missing key gives the zero value, the empty string.\<close>

definition annotation :: "Secret \<Rightarrow> string \<Rightarrow> string" where
  "annotation secret k = (case Annotations secret k of None \<Rightarrow> [] | Some v \<Rightarrow> v)"

definition uidMismatch :: "Secret \<Rightarrow> string \<Rightarrow> ServiceAccount \<Rightarrow> error" where
  "uidMismatch secret saUID serviceAccount =
     FmtError (''secret ('' @ secret_Name secret @ '') service account UID ('' @ saUID
       @ '') does not match service account ('' @ sa_Name serviceAccount
       @ '') UID ('' @ sa_UID serviceAccount @ '')'')"

text \<open>
  \<^verbatim>\<open>getServiceAccount\<close> returns the Go pair (pointer, error): (nil, nil) when the secret
  names no service account, (nil, err) when the fetch fails or the UID differs, and the
  fetched object otherwise.
\<close>

definition getServiceAccount ::
  "'c Client \<Rightarrow> Secret \<Rightarrow> 'c \<Rightarrow> (ServiceAccount option \<times> error option) \<times> 'c \<times> event list" where
  "getServiceAccount cl secret c =
     (let saName = annotation secret ServiceAccountNameKey;
          saUID = annotation secret ServiceAccountUIDKey
      in if length saName = 0 \<or> length saUID = 0 then ((None, None), c, [])
         else
           (case ServiceAccounts_Get cl c (secret_Namespace secret) saName of
              (Inl err, c') \<Rightarrow>
                ((None, Some err), c',
                 [GetServiceAccount (secret_Namespace secret) saName (Inl err)])
            | (Inr serviceAccount, c') \<Rightarrow>
                if saUID \<noteq> sa_UID serviceAccount
                then ((None, Some (uidMismatch secret saUID serviceAccount)), c',
                      [GetServiceAccount (secret_Namespace secret) saName (Inr serviceAccount)])
                else ((Some serviceAccount, None), c',
                      [GetServiceAccount (secret_Namespace secret) saName (Inr serviceAccount)])))"

text \<open>
  The two loops of \<^verbatim>\<open>removeDockercfgSecretReference\<close>, each over one reference list:
  an entry with the secret's name sets \<^verbatim>\<open>changed\<close> and is skipped, any other entry is
  appended to the new list.
\<close>

fun secretsLoop ::
  "string \<Rightarrow> ObjectReference list \<Rightarrow> bool \<Rightarrow> ObjectReference list \<Rightarrow> bool \<times> ObjectReference list" where
  "secretsLoop name [] changed secrets = (changed, secrets)"
| "secretsLoop name (s # rest) changed secrets =
     (if or_Name s = name then secretsLoop name rest True secrets
      else secretsLoop name rest changed (secrets @ [s]))"

fun imagePullSecretsLoop ::
  "string \<Rightarrow> LocalObjectReference list \<Rightarrow> bool \<Rightarrow> LocalObjectReference list
     \<Rightarrow> bool \<times> LocalObjectReference list" where
  "imagePullSecretsLoop name [] changed imagePullSecrets = (changed, imagePullSecrets)"
| "imagePullSecretsLoop name (s # rest) changed imagePullSecrets =
     (if lor_Name s = name then imagePullSecretsLoop name rest True imagePullSecrets
      else imagePullSecretsLoop name rest changed (imagePullSecrets @ [s]))"

text \<open>
  \<^verbatim>\<open>removeDockercfgSecretReference\<close>. The object fetched by the client is a copy of its
  own, so assigning its fields changes no store. When \<^verbatim>\<open>getServiceAccount\<close> returns
  (nil, nil), neither test on \<^verbatim>\<open>err\<close> fires and \<^verbatim>\<open>serviceAccount.Secrets\<close> reads a field
  through the nil pointer: the function panics.
\<close>

definition removeDockercfgSecretReference ::
  "'c Client \<Rightarrow> Secret \<Rightarrow> 'c \<Rightarrow> error option go \<times> 'c \<times> event list" where
  "removeDockercfgSecretReference cl dockercfgSecret c =
     (case getServiceAccount cl dockercfgSecret c of
        ((serviceAccount, err), c1, es) \<Rightarrow>
          if IsNotFound err then (Return None, c1, es)
          else if err \<noteq> None then (Return err, c1, es)
          else
            (case serviceAccount of
               None \<Rightarrow> (Panic, c1, es)
             | Some sa \<Rightarrow>
                 (case secretsLoop (secret_Name dockercfgSecret) (Secrets sa) False [] of
                    (changed1, secrets) \<Rightarrow>
                      (case imagePullSecretsLoop (secret_Name dockercfgSecret)
                              (ImagePullSecrets sa) changed1 [] of
                         (changed, imagePullSecrets) \<Rightarrow>
                           if changed then
                             (let sa' = sa\<lparr>Secrets := secrets,
                                            ImagePullSecrets := imagePullSecrets\<rparr>
                              in case ServiceAccounts_Update cl c1
                                        (secret_Namespace dockercfgSecret) sa' of
                                   (err', c2) \<Rightarrow>
                                     (Return err', c2,
                                      es @ [UpdateServiceAccount
                                              (secret_Namespace dockercfgSecret) sa' err']))
                           else (Return None, c1, es)))))"

text \<open>
  The retry loop of \<^verbatim>\<open>secretDeleted\<close>, \<^verbatim>\<open>for i := 1; i <= N; i++\<close>, from the value
  \<open>i\<close> of its counter on. A panic of the body leaves the loop and the function.
\<close>

function retryLoop :: "'c Client \<Rightarrow> Secret \<Rightarrow> nat \<Rightarrow> 'c \<Rightarrow> unit go \<times> 'c \<times> event list" where
  "retryLoop cl dockercfgSecret i c =
     (if i \<le> NumServiceAccountUpdateRetries then
        (case removeDockercfgSecretReference cl dockercfgSecret c of
           (Panic, c', es) \<Rightarrow> (Panic, c', es)
         | (Return None, c', es) \<Rightarrow> (Return (), c', es)
         | (Return (Some err), c', es) \<Rightarrow>
             if IsConflict (Some err) \<and> i < NumServiceAccountUpdateRetries then
               (case retryLoop cl dockercfgSecret (i + 1) c' of
                  (r, c'', es') \<Rightarrow> (r, c'', es @ [SleepJitter (100 * Millisecond)] @ es'))
             else (Return (), c', es @ [GlogError err]))
      else (Return (), c, []))"
  by pat_completeness auto
termination
  by (relation "measure (\<lambda>(cl, s, i, c). NumServiceAccountUpdateRetries + 1 - i)") auto

text \<open>
  \<^verbatim>\<open>secretDeleted\<close>, the handler of a delete notification: the two guards, the retry
  loop, then the deletion of the token secret, whose error is reported unless it is a
  not-found error.
\<close>

definition secretDeleted :: "'c Client \<Rightarrow> Object \<Rightarrow> 'c \<Rightarrow> unit go \<times> 'c \<times> event list" where
  "secretDeleted cl obj c =
     (case obj of
        OtherObj k \<Rightarrow> (Return (), c, [])
      | SecretObj dockercfgSecret \<Rightarrow>
          if Annotations dockercfgSecret ServiceAccountTokenSecretNameKey = None
          then (Return (), c, [])
          else
            (case retryLoop cl dockercfgSecret 1 c of
               (Panic, c1, es) \<Rightarrow> (Panic, c1, es)
             | (Return u, c1, es) \<Rightarrow>
                 (case Secrets_Delete cl c1 (secret_Namespace dockercfgSecret)
                         (annotation dockercfgSecret ServiceAccountTokenSecretNameKey) of
                    (err, c2) \<Rightarrow>
                      (Return (), c2,
                       es @ [DeleteSecret (secret_Namespace dockercfgSecret)
                               (annotation dockercfgSecret ServiceAccountTokenSecretNameKey) err]
                          @ (case err of
                               None \<Rightarrow> []
                             | Some e \<Rightarrow> if \<not> IsNotFound err then [HandleError e] else [])))))"

declare retryLoop.simps [simp del]

section \<open>Reading the effects\<close>





fun reported :: "event list \<Rightarrow> error list" where
  "reported [] = []"
| "reported (GlogError e # es) = e # reported es"
| "reported (HandleError e # es) = e # reported es"
| "reported (e # es) = reported es"



text \<open>What the last statement of \<^verbatim>\<open>secretDeleted\<close> reports for the result of the
  deletion.\<close>

fun deleteReport :: "error option \<Rightarrow> event list" where
  "deleteReport None = []"
| "deleteReport (Some e) = (if IsNotFound (Some e) then [] else [HandleError e])"

section \<open>The repair as the specification words it\<close>

text \<open>
  The specification's step 4: every entry equal to the secret's name leaves both lists,
  the others stay in their order. \<open>referencesSecret\<close> says that some entry of one of the
  lists has that name.
\<close>

definition withoutReference :: "string \<Rightarrow> ServiceAccount \<Rightarrow> ServiceAccount" where
  "withoutReference name sa =
     sa\<lparr>Secrets := filter (\<lambda>s. or_Name s \<noteq> name) (Secrets sa),
        ImagePullSecrets := filter (\<lambda>s. lor_Name s \<noteq> name) (ImagePullSecrets sa)\<rparr>"

definition referencesSecret :: "string \<Rightarrow> ServiceAccount \<Rightarrow> bool" where
  "referencesSecret name sa =
     (name \<in> set (map or_Name (Secrets sa)) \<or> name \<in> set (map lor_Name (ImagePullSecrets sa)))"


section \<open>A sequential store\<close>

text \<open>
  Modelled from the spec: the Resource Store Client of section 6 is outside the files at
  hand. This is a store with no other writer: \<open>Get\<close> returns the object stored under
  (namespace, name) or a not-found error; \<open>Update\<close> is rejected with not-found when the
  object is gone and with a conflict when the resource version sent is not the stored one,
  and otherwise stores the object under a new version; \<open>Delete\<close> removes the secret or
  returns a not-found error.
\<close>

record Store =
  store_ServiceAccounts :: "string \<times> string \<rightharpoonup> ServiceAccount"
  store_Secrets :: "(string \<times> string) set"

definition storeGet :: "Store \<Rightarrow> string \<Rightarrow> string \<Rightarrow> (error + ServiceAccount) \<times> Store" where
  "storeGet st ns name =
     (case store_ServiceAccounts st (ns, name) of
        None \<Rightarrow> (Inl (StatusError StatusReasonNotFound), st)
      | Some sa \<Rightarrow> (Inr (sa\<lparr>sa_Namespace := ns, sa_Name := name\<rparr>), st))"

definition storeUpdate :: "Store \<Rightarrow> string \<Rightarrow> ServiceAccount \<Rightarrow> error option \<times> Store" where
  "storeUpdate st ns sa =
     (case store_ServiceAccounts st (ns, sa_Name sa) of
        None \<Rightarrow> (Some (StatusError StatusReasonNotFound), st)
      | Some cur \<Rightarrow>
          if sa_ResourceVersion sa \<noteq> sa_ResourceVersion cur
          then (Some (StatusError StatusReasonConflict), st)
          else (None,
                st\<lparr>store_ServiceAccounts :=
                     (store_ServiceAccounts st)((ns, sa_Name sa) \<mapsto>
                        sa\<lparr>sa_ResourceVersion := sa_ResourceVersion cur + 1\<rparr>)\<rparr>))"

definition storeDelete :: "Store \<Rightarrow> string \<Rightarrow> string \<Rightarrow> error option \<times> Store" where
  "storeDelete st ns name =
     (if (ns, name) \<in> store_Secrets st
      then (None, st\<lparr>store_Secrets := store_Secrets st - {(ns, name)}\<rparr>)
      else (Some (StatusError StatusReasonNotFound), st))"

definition storeClient :: "Store Client" where
  "storeClient =
     \<lparr>ServiceAccounts_Get = storeGet, ServiceAccounts_Update = storeUpdate,
      Secrets_Delete = storeDelete\<rparr>"

text \<open>A client under permanent contention: every fetch returns \<open>sa\<close>, every update is
  rejected with a conflict; its state counts the calls.\<close>

definition conflictClient :: "ServiceAccount \<Rightarrow> nat Client" where
  "conflictClient sa =
     \<lparr>ServiceAccounts_Get = (\<lambda>c ns name. (Inr sa, c + 1)),
      ServiceAccounts_Update = (\<lambda>c ns x. (Some (StatusError StatusReasonConflict), c + 1)),
      Secrets_Delete = (\<lambda>c ns name. (None, c + 1))\<rparr>"

section \<open>The scenario of the specification\<close>

text \<open>
  Service account \<open>sa1\<close> (UID \<open>u1\<close>) with \<open>secretRefs = [d1, d2]\<close> and
  \<open>pullSecretRefs = [d1]\<close>; the deleted secret \<open>d1\<close> with its three annotations; the token
  \<open>tok1\<close>. Variants: the account recreated under UID \<open>u2\<close>, the account gone together
  with the token, and a secret that carries the token annotation only.
\<close>

definition objectReference :: "string \<Rightarrow> ObjectReference" where
  "objectReference name =
     \<lparr>or_Kind = ''Secret'', or_Namespace = ''ns'', or_Name = name, or_UID = [],
      or_APIVersion = [], or_ResourceVersion = [], or_FieldPath = []\<rparr>"

definition sa1 :: ServiceAccount where
  "sa1 = \<lparr>sa_Namespace = ''ns'', sa_Name = ''sa1'', sa_UID = ''u1'', sa_ResourceVersion = 7,
          Secrets = [objectReference ''d1'', objectReference ''d2''],
          ImagePullSecrets = [\<lparr>lor_Name = ''d1''\<rparr>]\<rparr>"

definition d1 :: Secret where
  "d1 = \<lparr>secret_Namespace = ''ns'', secret_Name = ''d1'',
         Annotations = [ServiceAccountNameKey \<mapsto> ''sa1'', ServiceAccountUIDKey \<mapsto> ''u1'',
                        ServiceAccountTokenSecretNameKey \<mapsto> ''tok1'']\<rparr>"

definition store1 :: Store where
  "store1 = \<lparr>store_ServiceAccounts = [(''ns'', ''sa1'') \<mapsto> sa1],
             store_Secrets = {(''ns'', ''tok1'')}\<rparr>"

definition storeRecreated :: Store where
  "storeRecreated = \<lparr>store_ServiceAccounts = [(''ns'', ''sa1'') \<mapsto> sa1\<lparr>sa_UID := ''u2''\<rparr>],
                     store_Secrets = {(''ns'', ''tok1'')}\<rparr>"


definition d1NoBackref :: Secret where
  "d1NoBackref = \<lparr>secret_Namespace = ''ns'', secret_Name = ''d1'',
                  Annotations = [ServiceAccountTokenSecretNameKey \<mapsto> ''tok1'']\<rparr>"

definition d1Unmanaged :: Secret where
  "d1Unmanaged = \<lparr>secret_Namespace = ''ns'', secret_Name = ''d1'',
                  Annotations = [ServiceAccountNameKey \<mapsto> ''sa1'', ServiceAccountUIDKey \<mapsto> ''u1'']\<rparr>"

section \<open>One attempt\<close>

lemma storeClient_simps [simp]:
  "ServiceAccounts_Get storeClient = storeGet"
  "ServiceAccounts_Update storeClient = storeUpdate"
  "Secrets_Delete storeClient = storeDelete"
  by (simp_all add: storeClient_def)

lemma conflictClient_simps [simp]:
  "ServiceAccounts_Get (conflictClient sa) c ns name = (Inr sa, c + 1)"
  "ServiceAccounts_Update (conflictClient sa) c ns x = (Some (StatusError StatusReasonConflict), c + 1)"
  "Secrets_Delete (conflictClient sa) c ns name = (None, c + 1)"
  by (simp_all add: conflictClient_def)





lemma reported_append: "reported (xs @ ys) = reported xs @ reported ys"
  by (induction xs rule: reported.induct) auto



lemma IsNotFound_iff: "IsNotFound err = (err = Some (StatusError StatusReasonNotFound))"
  by (cases err rule: IsNotFound.cases) auto


text \<open>The two loops compute a filter, and the flag says whether an entry was dropped.\<close>

lemma secretsLoop_filter:
  "secretsLoop name xs changed acc =
     (changed \<or> name \<in> set (map or_Name xs), acc @ filter (\<lambda>s. or_Name s \<noteq> name) xs)"
  by (induction xs arbitrary: changed acc) auto

lemma imagePullSecretsLoop_filter:
  "imagePullSecretsLoop name xs changed acc =
     (changed \<or> name \<in> set (map lor_Name xs), acc @ filter (\<lambda>s. lor_Name s \<noteq> name) xs)"
  by (induction xs arbitrary: changed acc) auto

lemma getServiceAccount_nil:
  "annotation s ServiceAccountNameKey = [] \<or> annotation s ServiceAccountUIDKey = [] \<Longrightarrow>
   getServiceAccount cl s c = ((None, None), c, [])"
  by (auto simp: getServiceAccount_def Let_def)

lemma getServiceAccount_error:
  assumes "annotation s ServiceAccountNameKey \<noteq> []" "annotation s ServiceAccountUIDKey \<noteq> []"
    and "ServiceAccounts_Get cl c (secret_Namespace s) (annotation s ServiceAccountNameKey)
           = (Inl err, c1)"
  shows "getServiceAccount cl s c = ((None, Some err), c1,
     [GetServiceAccount (secret_Namespace s) (annotation s ServiceAccountNameKey) (Inl err)])"
  using assms by (simp add: getServiceAccount_def Let_def)

lemma getServiceAccount_found:
  assumes "annotation s ServiceAccountNameKey \<noteq> []" "annotation s ServiceAccountUIDKey \<noteq> []"
    and "ServiceAccounts_Get cl c (secret_Namespace s) (annotation s ServiceAccountNameKey)
           = (Inr sa, c1)"
  shows "getServiceAccount cl s c =
     ((if annotation s ServiceAccountUIDKey \<noteq> sa_UID sa
       then (None, Some (uidMismatch s (annotation s ServiceAccountUIDKey) sa))
       else (Some sa, None)), c1,
      [GetServiceAccount (secret_Namespace s) (annotation s ServiceAccountNameKey) (Inr sa)])"
  using assms by (simp add: getServiceAccount_def Let_def)

lemma remove_nil:
  "annotation s ServiceAccountNameKey = [] \<or> annotation s ServiceAccountUIDKey = [] \<Longrightarrow>
   removeDockercfgSecretReference cl s c = (Panic, c, [])"
  by (simp add: removeDockercfgSecretReference_def getServiceAccount_nil)

lemma remove_error:
  assumes "annotation s ServiceAccountNameKey \<noteq> []" "annotation s ServiceAccountUIDKey \<noteq> []"
    and "ServiceAccounts_Get cl c (secret_Namespace s) (annotation s ServiceAccountNameKey)
           = (Inl err, c1)"
  shows "removeDockercfgSecretReference cl s c =
     (Return (if IsNotFound (Some err) then None else Some err), c1,
      [GetServiceAccount (secret_Namespace s) (annotation s ServiceAccountNameKey) (Inl err)])"
  by (simp add: removeDockercfgSecretReference_def getServiceAccount_error [OF assms])

lemma remove_mismatch:
  assumes "annotation s ServiceAccountNameKey \<noteq> []" "annotation s ServiceAccountUIDKey \<noteq> []"
    and "ServiceAccounts_Get cl c (secret_Namespace s) (annotation s ServiceAccountNameKey)
           = (Inr sa, c1)"
    and "sa_UID sa \<noteq> annotation s ServiceAccountUIDKey"
  shows "removeDockercfgSecretReference cl s c =
     (Return (Some (uidMismatch s (annotation s ServiceAccountUIDKey) sa)), c1,
      [GetServiceAccount (secret_Namespace s) (annotation s ServiceAccountNameKey) (Inr sa)])"
  using assms(4)
  by (auto simp add: removeDockercfgSecretReference_def getServiceAccount_found [OF assms(1-3)]
      uidMismatch_def)

lemma remove_match:
  assumes "annotation s ServiceAccountNameKey \<noteq> []" "annotation s ServiceAccountUIDKey \<noteq> []"
    and "ServiceAccounts_Get cl c (secret_Namespace s) (annotation s ServiceAccountNameKey)
           = (Inr sa, c1)"
    and "sa_UID sa = annotation s ServiceAccountUIDKey"
  shows "removeDockercfgSecretReference cl s c =
     (if referencesSecret (secret_Name s) sa then
        (case ServiceAccounts_Update cl c1 (secret_Namespace s)
                (withoutReference (secret_Name s) sa) of
           (err, c2) \<Rightarrow>
             (Return err, c2,
              [GetServiceAccount (secret_Namespace s) (annotation s ServiceAccountNameKey) (Inr sa),
               UpdateServiceAccount (secret_Namespace s) (withoutReference (secret_Name s) sa) err]))
      else (Return None, c1,
            [GetServiceAccount (secret_Namespace s) (annotation s ServiceAccountNameKey) (Inr sa)]))"
  using assms(4)
  by (simp add: removeDockercfgSecretReference_def getServiceAccount_found [OF assms(1-3)]
      secretsLoop_filter imagePullSecretsLoop_filter referencesSecret_def withoutReference_def
      split: prod.splits)




section \<open>The retry loop\<close>

lemma one_le_retries: "1 \<le> NumServiceAccountUpdateRetries"
  by (simp add: NumServiceAccountUpdateRetries_def)

lemma retryLoop_panic:
  assumes "removeDockercfgSecretReference cl s c = (Panic, c', es)"
    and "i \<le> NumServiceAccountUpdateRetries"
  shows "retryLoop cl s i c = (Panic, c', es)"
  using assms by (subst retryLoop.simps) simp

lemma retryLoop_done:
  assumes "removeDockercfgSecretReference cl s c = (Return None, c', es)"
    and "i \<le> NumServiceAccountUpdateRetries"
  shows "retryLoop cl s i c = (Return (), c', es)"
  using assms by (subst retryLoop.simps) simp

lemma retryLoop_give_up:
  assumes "removeDockercfgSecretReference cl s c = (Return (Some err), c', es)"
    and "i \<le> NumServiceAccountUpdateRetries"
    and "\<not> IsConflict (Some err) \<or> i = NumServiceAccountUpdateRetries"
  shows "retryLoop cl s i c = (Return (), c', es @ [GlogError err])"
  using assms by (subst retryLoop.simps) auto


lemma retryLoop_uid_mismatch:
  assumes "annotation s ServiceAccountNameKey \<noteq> []" "annotation s ServiceAccountUIDKey \<noteq> []"
    and "ServiceAccounts_Get cl c (secret_Namespace s) (annotation s ServiceAccountNameKey)
           = (Inr sa, c1)"
    and "sa_UID sa \<noteq> annotation s ServiceAccountUIDKey"
  shows "retryLoop cl s 1 c =
     (Return (), c1,
      [GetServiceAccount (secret_Namespace s) (annotation s ServiceAccountNameKey) (Inr sa),
       GlogError (uidMismatch s (annotation s ServiceAccountUIDKey) sa)])"
proof -
  have "\<not> IsConflict (Some (uidMismatch s (annotation s ServiceAccountUIDKey) sa))"
    by (simp add: uidMismatch_def)
  then show ?thesis
    using retryLoop_give_up [OF remove_mismatch [OF assms] one_le_retries] by simp
qed

lemma retryLoop_not_found:
  assumes "annotation s ServiceAccountNameKey \<noteq> []" "annotation s ServiceAccountUIDKey \<noteq> []"
    and "ServiceAccounts_Get cl c (secret_Namespace s) (annotation s ServiceAccountNameKey)
           = (Inl (StatusError StatusReasonNotFound), c1)"
  shows "retryLoop cl s 1 c =
     (Return (), c1,
      [GetServiceAccount (secret_Namespace s) (annotation s ServiceAccountNameKey)
         (Inl (StatusError StatusReasonNotFound))])"
  using retryLoop_done [OF _ one_le_retries, of cl s c] remove_error [OF assms] by simp




section \<open>The handler\<close>

lemma secretDeleted_after_loop:
  assumes "Annotations s ServiceAccountTokenSecretNameKey \<noteq> None"
    and "retryLoop cl s 1 c = (Return (), c1, es)"
    and "Secrets_Delete cl c1 (secret_Namespace s) (annotation s ServiceAccountTokenSecretNameKey)
           = (err, c2)"
  shows "secretDeleted cl (SecretObj s) c =
     (Return (), c2,
      es @ [DeleteSecret (secret_Namespace s) (annotation s ServiceAccountTokenSecretNameKey) err]
         @ deleteReport err)"
  using assms by (cases err) (auto simp: secretDeleted_def)

lemma secretDeleted_nil:
  assumes "Annotations s ServiceAccountTokenSecretNameKey \<noteq> None"
    and "annotation s ServiceAccountNameKey = [] \<or> annotation s ServiceAccountUIDKey = []"
  shows "secretDeleted cl (SecretObj s) c = (Panic, c, [])"
proof -
  have "retryLoop cl s 1 c = (Panic, c, [])"
    by (rule retryLoop_panic [OF remove_nil [OF assms(2)] one_le_retries])
  with assms(1) show ?thesis by (auto simp: secretDeleted_def)
qed

section \<open>The handler on the sequential store\<close>

lemma store_loop:
  assumes n: "annotation s ServiceAccountNameKey \<noteq> []"
    and u: "annotation s ServiceAccountUIDKey \<noteq> []"
  shows "retryLoop storeClient s 1 st =
    (case store_ServiceAccounts st (secret_Namespace s, annotation s ServiceAccountNameKey) of
       None \<Rightarrow> (Return (), st,
          [GetServiceAccount (secret_Namespace s) (annotation s ServiceAccountNameKey)
             (Inl (StatusError StatusReasonNotFound))])
     | Some sa0 \<Rightarrow>
        (let sa = sa0\<lparr>sa_Namespace := secret_Namespace s,
                        sa_Name := annotation s ServiceAccountNameKey\<rparr> in
         if sa_UID sa \<noteq> annotation s ServiceAccountUIDKey then
           (Return (), st,
            [GetServiceAccount (secret_Namespace s) (annotation s ServiceAccountNameKey) (Inr sa),
             GlogError (uidMismatch s (annotation s ServiceAccountUIDKey) sa)])
         else if referencesSecret (secret_Name s) sa then
           (Return (),
            st\<lparr>store_ServiceAccounts :=
                 (store_ServiceAccounts st)
                   ((secret_Namespace s, annotation s ServiceAccountNameKey) \<mapsto>
                    (withoutReference (secret_Name s) sa)
                      \<lparr>sa_ResourceVersion := sa_ResourceVersion sa0 + 1\<rparr>)\<rparr>,
            [GetServiceAccount (secret_Namespace s) (annotation s ServiceAccountNameKey) (Inr sa),
             UpdateServiceAccount (secret_Namespace s) (withoutReference (secret_Name s) sa) None])
         else
           (Return (), st,
            [GetServiceAccount (secret_Namespace s) (annotation s ServiceAccountNameKey)
               (Inr sa)])))"
proof (cases "store_ServiceAccounts st (secret_Namespace s, annotation s ServiceAccountNameKey)")
  case None
  then have g: "ServiceAccounts_Get storeClient st (secret_Namespace s)
       (annotation s ServiceAccountNameKey) = (Inl (StatusError StatusReasonNotFound), st)"
    by (simp add: storeGet_def)
  show ?thesis
    using retryLoop_not_found [OF n u g] None by simp
next
  case (Some sa0)
  let ?sa = "sa0\<lparr>sa_Namespace := secret_Namespace s,
                        sa_Name := annotation s ServiceAccountNameKey\<rparr>"
  have g: "ServiceAccounts_Get storeClient st (secret_Namespace s)
       (annotation s ServiceAccountNameKey) = (Inr ?sa, st)"
    using Some by (simp add: storeGet_def)
  show ?thesis
  proof (cases "sa_UID ?sa = annotation s ServiceAccountUIDKey")
    case False
    then show ?thesis
      using retryLoop_uid_mismatch [OF n u g False] Some
      by (simp add: Let_def)
  next
    case True
    note m = remove_match [OF n u g True]
    show ?thesis
    proof (cases "referencesSecret (secret_Name s) ?sa")
      case False
      with m have "removeDockercfgSecretReference storeClient s st = (Return None, st,
            [GetServiceAccount (secret_Namespace s) (annotation s ServiceAccountNameKey)
               (Inr ?sa)])"
        by simp
      from retryLoop_done [OF this one_le_retries] Some True False show ?thesis
        by (simp add: Let_def)
    next
      case r: True
      have "storeUpdate st (secret_Namespace s) (withoutReference (secret_Name s) ?sa) =
         (None, st\<lparr>store_ServiceAccounts :=
                 (store_ServiceAccounts st)
                   ((secret_Namespace s, annotation s ServiceAccountNameKey) \<mapsto>
                    (withoutReference (secret_Name s) ?sa)
                      \<lparr>sa_ResourceVersion := sa_ResourceVersion sa0 + 1\<rparr>)\<rparr>)"
        using Some by (simp add: storeUpdate_def withoutReference_def)
      with m r have "removeDockercfgSecretReference storeClient s st = (Return None,
          st\<lparr>store_ServiceAccounts :=
                 (store_ServiceAccounts st)
                   ((secret_Namespace s, annotation s ServiceAccountNameKey) \<mapsto>
                    (withoutReference (secret_Name s) ?sa)
                      \<lparr>sa_ResourceVersion := sa_ResourceVersion sa0 + 1\<rparr>)\<rparr>,
            [GetServiceAccount (secret_Namespace s) (annotation s ServiceAccountNameKey) (Inr ?sa),
             UpdateServiceAccount (secret_Namespace s) (withoutReference (secret_Name s) ?sa)
               None])"
        by simp
      from retryLoop_done [OF this one_le_retries] Some True r show ?thesis
        by (simp add: Let_def)
    qed
  qed
qed

lemma store_handler:
  assumes t: "Annotations s ServiceAccountTokenSecretNameKey \<noteq> None"
    and n: "annotation s ServiceAccountNameKey \<noteq> []"
    and u: "annotation s ServiceAccountUIDKey \<noteq> []"
  shows "secretDeleted storeClient (SecretObj s) st =
    (case retryLoop storeClient s 1 st of
       (r, st1, es) \<Rightarrow>
         (Return (),
          st1\<lparr>store_Secrets := store_Secrets st1
                  - {(secret_Namespace s, annotation s ServiceAccountTokenSecretNameKey)}\<rparr>,
          es @ [DeleteSecret (secret_Namespace s) (annotation s ServiceAccountTokenSecretNameKey)
                  (if (secret_Namespace s, annotation s ServiceAccountTokenSecretNameKey)
                        \<in> store_Secrets st1
                   then None else Some (StatusError StatusReasonNotFound))]))"
proof -
  obtain r st1 es where l: "retryLoop storeClient s 1 st = (r, st1, es)"
    by (cases "retryLoop storeClient s 1 st")
  have r: "r = Return ()"
    using l store_loop [OF n u, of st]
    by (auto simp: Let_def split: option.splits if_splits)
  show ?thesis
    using secretDeleted_after_loop [OF t l [unfolded r],
        of "fst (storeDelete st1 (secret_Namespace s)
                  (annotation s ServiceAccountTokenSecretNameKey))"
           "snd (storeDelete st1 (secret_Namespace s)
                  (annotation s ServiceAccountTokenSecretNameKey))"] l r
    by (auto simp: storeDelete_def)
qed

text \<open>The annotations of the scenario's secrets.\<close>

lemma d1_annotations:
  "Annotations d1 ServiceAccountTokenSecretNameKey = Some ''tok1''"
  "annotation d1 ServiceAccountTokenSecretNameKey = ''tok1''"
  "annotation d1 ServiceAccountNameKey = ''sa1''"
  "annotation d1 ServiceAccountUIDKey = ''u1''"
  "secret_Namespace d1 = ''ns''" "secret_Name d1 = ''d1''"
  by (simp_all add: d1_def annotation_def ServiceAccountTokenSecretNameKey_def
      ServiceAccountNameKey_def ServiceAccountUIDKey_def)

section \<open>The properties\<close>



text \<open>
  C2. A managed secret whose back-reference annotations are missing: the claim is that the
  handler goes straight to the deletion of the token secret and completes. In the code
  \<^verbatim>\<open>getServiceAccount\<close> returns (nil, nil) and \<^verbatim>\<open>removeDockercfgSecretReference\<close>
  reads \<^verbatim>\<open>serviceAccount.Secrets\<close> through the nil pointer: on the secret that carries
  the token annotation only, the handler panics before any store call, and the token is
  not deleted.
\<close>

theorem missing_backref_panics:
  "secretDeleted storeClient (SecretObj d1NoBackref) store1 = (Panic, store1, [])"
  by (rule secretDeleted_nil)
    (simp_all add: d1NoBackref_def annotation_def ServiceAccountTokenSecretNameKey_def
      ServiceAccountNameKey_def ServiceAccountUIDKey_def)

text \<open>
  C3. The repair, for a service account fetched with the annotated UID: when an entry of
  either list bears the secret's name, one update is issued, of the fetched object with
  exactly those entries removed from both lists and the others in their order; when no
  entry bears the name, no update is issued. The result of the attempt is the result of
  the update.
\<close>

theorem repair_removes_named_entries:
  assumes "annotation s ServiceAccountNameKey \<noteq> []" and "annotation s ServiceAccountUIDKey \<noteq> []"
    and "ServiceAccounts_Get cl c (secret_Namespace s) (annotation s ServiceAccountNameKey)
           = (Inr sa, c1)"
    and "sa_UID sa = annotation s ServiceAccountUIDKey"
  shows "removeDockercfgSecretReference cl s c =
     (let sa' = sa\<lparr>Secrets := filter (\<lambda>r. or_Name r \<noteq> secret_Name s) (Secrets sa),
                    ImagePullSecrets :=
                      filter (\<lambda>r. lor_Name r \<noteq> secret_Name s) (ImagePullSecrets sa)\<rparr>
      in if (\<exists>r \<in> set (Secrets sa). or_Name r = secret_Name s)
            \<or> (\<exists>r \<in> set (ImagePullSecrets sa). lor_Name r = secret_Name s)
         then
           (case ServiceAccounts_Update cl c1 (secret_Namespace s) sa' of
              (err, c2) \<Rightarrow>
                (Return err, c2,
                 [GetServiceAccount (secret_Namespace s) (annotation s ServiceAccountNameKey)
                    (Inr sa),
                  UpdateServiceAccount (secret_Namespace s) sa' err]))
         else (Return None, c1,
               [GetServiceAccount (secret_Namespace s) (annotation s ServiceAccountNameKey)
                  (Inr sa)]))"
proof -
  have "referencesSecret (secret_Name s) sa =
      ((\<exists>r \<in> set (Secrets sa). or_Name r = secret_Name s)
        \<or> (\<exists>r \<in> set (ImagePullSecrets sa). lor_Name r = secret_Name s))"
    unfolding referencesSecret_def set_map image_iff
    by (simp add: eq_commute [of "secret_Name s"])
  then show ?thesis
    unfolding remove_match [OF assms] by (simp add: withoutReference_def Let_def)
qed

theorem repair_removes_named_entries_witness:
  "removeDockercfgSecretReference storeClient d1 store1 =
     (Return None,
      store1\<lparr>store_ServiceAccounts :=
               [(''ns'', ''sa1'') \<mapsto>
                  sa1\<lparr>Secrets := [objectReference ''d2''], ImagePullSecrets := [],
                      sa_ResourceVersion := 8\<rparr>]\<rparr>,
      [GetServiceAccount ''ns'' ''sa1'' (Inr sa1),
       UpdateServiceAccount ''ns''
         (sa1\<lparr>Secrets := [objectReference ''d2''], ImagePullSecrets := []\<rparr>) None])"
  using repair_removes_named_entries [of d1 storeClient store1 sa1 store1]
  by (simp add: d1_annotations storeGet_def storeUpdate_def store1_def sa1_def
      objectReference_def)



text \<open>
  C5, as amended. On the sequential store, when the handler has completed on a deletion
  event, handling the same event again completes too, leaves the store (reference lists
  and token secrets) as the first handling left it, and reports the same errors as the
  first handling did. It reports an error only when the service account named by the
  annotation exists under another UID than the annotated one: that mismatch is reported
  on every handling.
\<close>

theorem redelivery_same_store:
  assumes "secretDeleted storeClient obj st = (Return (), st1, es1)"
  shows "(case secretDeleted storeClient obj st1 of
            (r2, st2, es2) \<Rightarrow>
              r2 = Return () \<and> st2 = st1 \<and> reported es2 = reported es1 \<and>
              (reported es2 = [] \<or>
               (case obj of
                  OtherObj k \<Rightarrow> False
                | SecretObj s \<Rightarrow>
                    (case store_ServiceAccounts st1
                            (secret_Namespace s, annotation s ServiceAccountNameKey) of
                       None \<Rightarrow> False
                     | Some sa \<Rightarrow> sa_UID sa \<noteq> annotation s ServiceAccountUIDKey))))"
proof (cases obj)
  case (OtherObj k)
  with assms show ?thesis by (auto simp: secretDeleted_def)
next
  case (SecretObj s)
  show ?thesis
  proof (cases "Annotations s ServiceAccountTokenSecretNameKey = None")
    case True
    with assms SecretObj show ?thesis by (auto simp: secretDeleted_def)
  next
    case t: False
    have "annotation s ServiceAccountNameKey \<noteq> [] \<and> annotation s ServiceAccountUIDKey \<noteq> []"
      using secretDeleted_nil [OF t, of storeClient st] assms SecretObj by auto
    then have n: "annotation s ServiceAccountNameKey \<noteq> []"
      and u: "annotation s ServiceAccountUIDKey \<noteq> []"
      by simp_all
    note h = store_handler [OF t n u]
    note l = store_loop [OF n u]
    show ?thesis
      using assms unfolding SecretObj h l
      by (auto simp: Let_def referencesSecret_def withoutReference_def
          split: option.splits if_splits)
  qed
qed

theorem redelivery_same_store_witness:
  "secretDeleted storeClient (SecretObj d1) store1 =
     (Return (),
      \<lparr>store_ServiceAccounts =
         [(''ns'', ''sa1'') \<mapsto>
            sa1\<lparr>Secrets := [objectReference ''d2''], ImagePullSecrets := [],
                sa_ResourceVersion := 8\<rparr>],
       store_Secrets = {}\<rparr>,
      [GetServiceAccount ''ns'' ''sa1'' (Inr sa1),
       UpdateServiceAccount ''ns''
         (sa1\<lparr>Secrets := [objectReference ''d2''], ImagePullSecrets := []\<rparr>) None,
       DeleteSecret ''ns'' ''tok1'' None])
   \<and> (case secretDeleted storeClient (SecretObj d1)
              \<lparr>store_ServiceAccounts =
                 [(''ns'', ''sa1'') \<mapsto>
                    sa1\<lparr>Secrets := [objectReference ''d2''], ImagePullSecrets := [],
                        sa_ResourceVersion := 8\<rparr>],
               store_Secrets = {}\<rparr> of
         (r2, st2, es2) \<Rightarrow>
           r2 = Return () \<and>
           st2 = \<lparr>store_ServiceAccounts =
                   [(''ns'', ''sa1'') \<mapsto>
                      sa1\<lparr>Secrets := [objectReference ''d2''], ImagePullSecrets := [],
                          sa_ResourceVersion := 8\<rparr>],
                  store_Secrets = {}\<rparr> \<and>
           reported es2 = [])"
proof -
  have first: "secretDeleted storeClient (SecretObj d1) store1 =
     (Return (),
      \<lparr>store_ServiceAccounts =
         [(''ns'', ''sa1'') \<mapsto>
            sa1\<lparr>Secrets := [objectReference ''d2''], ImagePullSecrets := [],
                sa_ResourceVersion := 8\<rparr>],
       store_Secrets = {}\<rparr>,
      [GetServiceAccount ''ns'' ''sa1'' (Inr sa1),
       UpdateServiceAccount ''ns''
         (sa1\<lparr>Secrets := [objectReference ''d2''], ImagePullSecrets := []\<rparr>) None,
       DeleteSecret ''ns'' ''tok1'' None])"
    by (simp add: store_handler store_loop d1_annotations store1_def sa1_def
        referencesSecret_def withoutReference_def objectReference_def del: One_nat_def)
  from redelivery_same_store [OF first] first show ?thesis
    by (simp split: prod.splits)
qed

theorem redelivery_reports_again:
  "reported (snd (snd (secretDeleted storeClient (SecretObj d1)
       (fst (snd (secretDeleted storeClient (SecretObj d1) storeRecreated)))))) =
     [FmtError
        ''secret (d1) service account UID (u1) does not match service account (sa1) UID (u2)'']"
  by (simp add: store_handler store_loop d1_annotations storeRecreated_def sa1_def
      uidMismatch_def Let_def del: One_nat_def)







text \<open>
  C10. A delete notification whose payload is not a secret, or whose secret has no
  token-name annotation, is a no-op: the handler returns, the client state is the one it
  was given, and no event (no store call, no report) is produced.
\<close>

theorem unmanaged_is_noop:
  "secretDeleted cl (OtherObj k) c = (Return (), c, []) \<and>
   (Annotations s ServiceAccountTokenSecretNameKey = None \<longrightarrow>
      secretDeleted cl (SecretObj s) c = (Return (), c, []))"
  by (simp add: secretDeleted_def)

theorem unmanaged_is_noop_witness:
  "Annotations d1Unmanaged ServiceAccountTokenSecretNameKey = None \<and>
   secretDeleted storeClient (SecretObj d1Unmanaged) store1 = (Return (), store1, [])"
  using unmanaged_is_noop [of storeClient "''ns/d1''" store1 d1Unmanaged]
  by (simp add: d1Unmanaged_def ServiceAccountTokenSecretNameKey_def
      ServiceAccountNameKey_def ServiceAccountUIDKey_def)

end
